theory Spec2Isabelle
  imports Main
begin

section \<open>Strings\<close>

text \<open>
  A \<^typ>\<open>char\<close> stands for one code point below 256. \<open>isspace\<close> is Python's
  \<open>str.isspace\<close> on that range: TAB, LF, VT, FF, CR, the separators 0x1C to 0x1F,
  the blank, NEL (0x85) and the no-break space (0xA0). \<open>strip\<close> is \<open>str.strip()\<close>
  with no argument: it removes the whitespace at both ends.
\<close>

definition isspace :: "char \<Rightarrow> bool" where
  "isspace c = (c \<in> set [CHR 0x09, CHR 0x0A, CHR 0x0B, CHR 0x0C, CHR 0x0D,
                         CHR 0x1C, CHR 0x1D, CHR 0x1E, CHR 0x1F, CHR 0x20,
                         CHR 0x85, CHR 0xA0])"

definition strip :: "string \<Rightarrow> string" where
  "strip s = rev (dropWhile isspace (rev (dropWhile isspace s)))"

section \<open>The backend: \<open>app.py\<close>\<close>

subsection \<open>Messages and the two stores\<close>

text \<open>
  The message classes that \<open>get_history\<close> tells apart with \<open>isinstance\<close>, and one
  more constructor for every other kind of stored message (a chat, tool or function
  message), which reaches the \<open>else\<close> branch.
\<close>

datatype message =
    AIMessage string
  | HumanMessage string
  | SystemMessage string
  | OtherMessage string

fun msg_content :: "message \<Rightarrow> string" where
  "msg_content (AIMessage c) = c"
| "msg_content (HumanMessage c) = c"
| "msg_content (SystemMessage c) = c"
| "msg_content (OtherMessage c) = c"

text \<open>
  The state the endpoints work on. \<open>STORE\<close> is the dictionary behind the message
  history, from a session id to the list of its messages; it is written as the
  repository's own double of the history class has it
  (\<open>FakeSQLChatMessageHistory._STORE\<close> in \<open>tests/test_chat.py\<close>), the class that
  \<open>app.SQLChatMessageHistory\<close> is bound to in the repository's chat test.
  \<open>chat_sessions\<close> is the table of that name: its rows, each one a session id, the
  primary key.
\<close>

record state =
  STORE :: "string \<rightharpoonup> message list"
  chat_sessions :: "string list"

text \<open>
  \<open>FakeSQLChatMessageHistory.__init__\<close>: the handle keeps
  \<open>session_id or "default"\<close> (so \<open>None\<close> and the empty string both become
  \<open>"default"\<close>) and \<open>setdefault\<close> gives the key an empty list when it has none.
  The handle is modelled by the key it keeps.
\<close>

definition FakeSQLChatMessageHistory ::
  "string option \<Rightarrow> (string \<rightharpoonup> message list) \<Rightarrow> string \<times> (string \<rightharpoonup> message list)" where
  "FakeSQLChatMessageHistory session_id store =
     (let sid = (case session_id of
                   None \<Rightarrow> ''default''
                 | Some s \<Rightarrow> if s = [] then ''default'' else s)
      in (sid, case store sid of None \<Rightarrow> store(sid \<mapsto> []) | Some _ \<Rightarrow> store))"

definition aget_messages :: "string \<Rightarrow> (string \<rightharpoonup> message list) \<Rightarrow> message list" where
  "aget_messages sid store = (case store sid of None \<Rightarrow> [] | Some ms \<Rightarrow> ms)"

text \<open>
  \<open>_STORE[self._sid].append(message)\<close> and \<open>_STORE[self._sid].clear()\<close>. The key
  is there once the handle has been built; a missing key would be a \<open>KeyError\<close>, which
  no caller can reach, and the model leaves the dictionary as it is there.
\<close>

definition aadd_message ::
  "string \<Rightarrow> message \<Rightarrow> (string \<rightharpoonup> message list) \<Rightarrow> (string \<rightharpoonup> message list)" where
  "aadd_message sid m store =
     (case store sid of None \<Rightarrow> store | Some ms \<Rightarrow> store(sid \<mapsto> ms @ [m]))"

definition aclear :: "string \<Rightarrow> (string \<rightharpoonup> message list) \<Rightarrow> (string \<rightharpoonup> message list)" where
  "aclear sid store = (case store sid of None \<Rightarrow> store | Some _ \<Rightarrow> store(sid \<mapsto> []))"

subsection \<open>Session endpoints\<close>

record HistoryOut_message =
  role :: string
  content :: string

record HistoryOut =
  session_id :: string
  messages :: "HistoryOut_message list"

datatype IntegrityError = IntegrityError

text \<open>
  \<open>POST /session\<close>. The fresh \<open>uuid4\<close> is a parameter; inserting a key that the
  table already has violates the primary key.
\<close>

definition create_new_session :: "string \<Rightarrow> state \<Rightarrow> (IntegrityError + string) \<times> state" where
  "create_new_session new_session_id st =
     (if new_session_id \<in> set (chat_sessions st) then (Inl IntegrityError, st)
      else (Inr new_session_id, st\<lparr>chat_sessions := chat_sessions st @ [new_session_id]\<rparr>))"

text \<open>\<open>GET /sessions\<close>.\<close>

definition list_all_sessions :: "state \<Rightarrow> string list" where
  "list_all_sessions st = chat_sessions st"

text \<open>
  \<open>GET /session/{session_id}/history\<close>: the loop over \<open>messages_raw\<close>, with the
  \<open>isinstance\<close> tests in the order of the source. Building the history handle is an
  effect on the store, so the state is returned too.
\<close>

fun role_of :: "message \<Rightarrow> string" where
  "role_of (AIMessage _) = ''assistant''"
| "role_of (HumanMessage _) = ''user''"
| "role_of (SystemMessage _) = ''system''"
| "role_of (OtherMessage _) = ''unknown''"

fun get_history_loop :: "HistoryOut_message list \<Rightarrow> message list \<Rightarrow> HistoryOut_message list" where
  "get_history_loop msgs [] = msgs"
| "get_history_loop msgs (m # messages_raw) =
     get_history_loop (msgs @ [\<lparr>role = role_of m, content = msg_content m\<rparr>]) messages_raw"

definition get_history :: "string \<Rightarrow> state \<Rightarrow> HistoryOut \<times> state" where
  "get_history sid st =
     (case FakeSQLChatMessageHistory (Some sid) (STORE st) of
        (history, store) \<Rightarrow>
          (\<lparr>session_id = sid,
            messages = get_history_loop [] (aget_messages history store)\<rparr>,
           st\<lparr>STORE := store\<rparr>))"

text \<open>
  \<open>DELETE /session/{session_id}\<close>: clear the history, then delete the rows of the
  table with that id; the answer is the same dictionary in every case.
\<close>

record cleared =
  status :: string
  cleared_session_id :: string

definition clear_session_history :: "string \<Rightarrow> state \<Rightarrow> cleared \<times> state" where
  "clear_session_history sid st =
     (case FakeSQLChatMessageHistory (Some sid) (STORE st) of
        (history, store) \<Rightarrow>
          (\<lparr>status = ''cleared'', cleared_session_id = sid\<rparr>,
           st\<lparr>STORE := aclear history store,
              chat_sessions := filter (\<lambda>c. c \<noteq> sid) (chat_sessions st)\<rparr>))"

subsection \<open>Streams, the provider chain and the history wrapper\<close>

text \<open>
  An exception that \<open>except Exception\<close> catches, by what the handler reads of it:
  \<open>type(e).__name__\<close> and \<open>str(e)\<close>.
\<close>

record exn =
  type_name :: string
  str_e :: string

text \<open>
  An asynchronous generator read to its end: the items it yields, then either a normal
  end (\<open>None\<close>) or the exception it raises (\<open>Some e\<close>). The streams of one request are
  finite.
\<close>

type_synonym 'a stream = "'a list \<times> exn option"

text \<open>
  What \<open>gen\<close> can meet as a chunk: a \<open>str\<close>, or another object, given by its
  \<open>content\<close> attribute when it has one.
\<close>

datatype chunk = Str string | Obj "string option"

text \<open>
  The chain built by \<open>build_chain\<close> is a parameter: its \<open>astream\<close>, from the
  \<open>inputs\<close> dictionary to a stream of \<open>str\<close> chunks. \<open>FakeStreamChain\<close> is the
  chain of the repository's chat test; \<open>inputs["input"]\<close> on a dictionary without that
  key is a \<open>KeyError\<close>, raised before the first chunk.
\<close>

type_synonym chain = "(string \<rightharpoonup> string) \<Rightarrow> string stream"

definition FakeStreamChain :: chain where
  "FakeStreamChain inputs =
     (case inputs ''input'' of
        None \<Rightarrow> ([], Some \<lparr>type_name = ''KeyError'', str_e = [CHR 0x27] @ ''input'' @ [CHR 0x27]\<rparr>)
      | Some text \<Rightarrow> ([''HEL'', ''LO: '', text], None))"

text \<open>
  The object that \<open>RunnableWithMessageHistory(chain, history_factory, ...)\<close> returns is
  a parameter of \<open>chat\<close> as well, given by its \<open>astream\<close>: from the chain, the history
  factory, \<open>inputs\<close> and \<open>config\<close> to the stream of chunks and the store it leaves
  behind when the stream is read to its end. The class itself is a library's; the
  repository has it as \<open>FakeHistoryWrapper\<close> (\<open>tests/test_chat.py\<close>), modelled next.
\<close>

type_synonym history_factory =
  "string \<Rightarrow> (string \<rightharpoonup> message list) \<Rightarrow> string \<times> (string \<rightharpoonup> message list)"

type_synonym config = "string \<rightharpoonup> (string \<rightharpoonup> string)"

type_synonym wrapper =
  "chain \<Rightarrow> history_factory \<Rightarrow> (string \<rightharpoonup> string) \<Rightarrow> config option \<Rightarrow>
   (string \<rightharpoonup> message list) \<Rightarrow> chunk stream \<times> (string \<rightharpoonup> message list)"

text \<open>
  The loop of \<open>FakeHistoryWrapper.astream\<close>: every chunk of the underlying chain is
  added to \<open>full_response\<close> and passed on. The result is the chunks passed on and the
  final \<open>full_response\<close>.
\<close>

fun wrapper_loop :: "string \<Rightarrow> string list \<Rightarrow> chunk list \<times> string" where
  "wrapper_loop full_response [] = ([], full_response)"
| "wrapper_loop full_response (c # cs) =
     (case wrapper_loop (full_response @ c) cs of
        (out, full_response') \<Rightarrow> (Str c # out, full_response'))"

text \<open>
  \<open>FakeHistoryWrapper.astream\<close>: read the session id from \<open>config\<close>, build the
  history, store the user's message when \<open>inputs\<close> has an \<open>"input"\<close>, pass the chunks
  on, and store the assistant's reply after the last chunk. When the underlying chain
  raises, the exception leaves the generator there, and the assistant's reply is not
  stored.
\<close>

definition FakeHistoryWrapper :: wrapper where
  "FakeHistoryWrapper underlying history_factory inputs config store =
     (let cfg = (case config of None \<Rightarrow> Map.empty | Some c \<Rightarrow> c);
          sid = (case cfg ''configurable'' of
                   None \<Rightarrow> ''default''
                 | Some c \<Rightarrow> (case c ''session_id'' of None \<Rightarrow> ''default'' | Some s \<Rightarrow> s))
      in case history_factory sid store of
        (history, store1) \<Rightarrow>
          (let store2 = (case inputs ''input'' of
                           None \<Rightarrow> store1
                         | Some text \<Rightarrow> aadd_message history (HumanMessage text) store1)
           in case underlying inputs of
             (chunks, fin) \<Rightarrow>
               (case wrapper_loop [] chunks of
                  (out, full_response) \<Rightarrow>
                    (case fin of
                       Some e \<Rightarrow> ((out, Some e), store2)
                     | None \<Rightarrow>
                         ((out, None),
                          aadd_message history (AIMessage full_response) store2)))))"

subsection \<open>\<open>POST /chat\<close>\<close>

text \<open>
  The body of the request, after validation: a request without \<open>session_id\<close> has the
  default \<open>"1"\<close> of the class there.
\<close>

record ChatIn =
  ChatIn_session_id :: string
  user_message :: string

record HTTPException =
  status_code :: nat
  detail :: string

definition SYSTEM_PROMPT :: string where
  "SYSTEM_PROMPT = ''You are a helpful assistant that answers questions from the user.''"

text \<open>
  The body of the \<open>async for\<close> in \<open>gen\<close>: a \<open>str\<close> chunk is taken as it is, any other
  chunk by \<open>getattr(chunk, "content", "")\<close>; an empty text is skipped, any other is
  yielded.
\<close>

fun gen_loop :: "chunk list \<Rightarrow> string list" where
  "gen_loop [] = []"
| "gen_loop (chunk # rest) =
     (let s = (case chunk of
                 Str s \<Rightarrow> s
               | Obj c \<Rightarrow> (case c of None \<Rightarrow> [] | Some s \<Rightarrow> s))
      in if s = [] then gen_loop rest else s # gen_loop rest)"

definition error_fragment :: "exn \<Rightarrow> string" where
  "error_fragment e =
     [CHR 0x0A, CHR 0x0A] @ ''[ERROR] Provider failed: '' @ type_name e @ '': '' @ str_e e"

text \<open>
  \<open>gen\<close>, applied to the stream of the wrapper: the \<open>except\<close> clause yields one more
  fragment and the generator ends. (The log entry written there is not modelled.)
\<close>

definition gen :: "chunk stream \<Rightarrow> string stream" where
  "gen stream =
     (case stream of
        (chunks, None) \<Rightarrow> (gen_loop chunks, None)
      | (chunks, Some e) \<Rightarrow> (gen_loop chunks @ [error_fragment e], None))"

text \<open>
  \<open>chat\<close>. The answer is the \<open>HTTPException\<close> raised, or the body of the streaming
  response, read to its end; the state is the one left when the body has been read.
  \<open>RunnableWithMessageHistory\<close> and the chain of \<open>build_chain\<close> are the two
  parameters.
\<close>

definition chat ::
  "wrapper \<Rightarrow> chain \<Rightarrow> ChatIn \<Rightarrow> state \<Rightarrow> (HTTPException + string stream) \<times> state" where
  "chat RunnableWithMessageHistory build_chain body st =
     (let sid = strip (ChatIn_session_id body);
          user_msg = strip (user_message body)
      in if user_msg = [] then
           (Inl \<lparr>status_code = 400, detail = ''user_message cannot be empty.''\<rparr>, st)
         else
           (let inputs = [''system_prompt'' \<mapsto> SYSTEM_PROMPT, ''input'' \<mapsto> user_msg];
                config = [''configurable'' \<mapsto> [''session_id'' \<mapsto> sid]]
            in case RunnableWithMessageHistory build_chain
                      (\<lambda>session_id. FakeSQLChatMessageHistory (Some session_id))
                      inputs (Some config) (STORE st) of
                 (stream, store) \<Rightarrow> (Inr (gen stream), st\<lparr>STORE := store\<rparr>)))"

section \<open>The client: \<open>UI.py\<close>\<close>

subsection \<open>Calls to the backend\<close>

text \<open>
  What a call to the backend can give the client is a parameter of each function below.
  For \<open>GET /sessions\<close>: an exception of the call or of decoding its body, or a
  response with its status code and the value under \<open>"sessions"\<close> in its body, when
  the body has that key.
\<close>

datatype sessions_reply =
    SessionsRaised
  | SessionsResponse nat "string list option"

definition get_available_sessions :: "sessions_reply \<Rightarrow> string list" where
  "get_available_sessions reply =
     (case reply of
        SessionsRaised \<Rightarrow> [''default'']
      | SessionsResponse code body \<Rightarrow>
          (if code = 200 then
             (case body of None \<Rightarrow> [''default''] | Some sessions_list \<Rightarrow> sessions_list)
           else [''default'']))"

text \<open>
  \<open>create_session\<close> has no handler: the call, \<open>raise_for_status\<close> and the lookup of
  \<open>"session_id"\<close> either raise or give the new id. Its outcome is the parameter
  \<open>create_session\<close> of the functions that call it.
\<close>

type_synonym create_session = "exn + string"

text \<open>
  For \<open>POST /chat\<close>: the request fails before there is a response, or the response has
  an error status (with the text that \<open>e.response.text\<close> gives), or its body arrives as
  chunks of text, which may end with an exception of the transport.
\<close>

datatype chat_reply =
    RequestRaised exn
  | StatusError nat string
  | Body "string stream"

definition digit :: "nat \<Rightarrow> char" where
  "digit d = ''0123456789'' ! d"

fun str_nat :: "nat \<Rightarrow> string" where
  "str_nat n = (if n < 10 then [digit n] else str_nat (n div 10) @ [digit (n mod 10)])"

text \<open>
  The loop of \<open>get_streaming_response\<close>: each chunk is added to \<open>combined\<close>, and
  \<open>combined\<close> is yielded.
\<close>

fun iter_text_loop :: "string \<Rightarrow> string list \<Rightarrow> string list" where
  "iter_text_loop combined [] = []"
| "iter_text_loop combined (chunk # rest) =
     (let combined' = combined @ chunk in combined' # iter_text_loop combined' rest)"

text \<open>
  \<open>get_streaming_response\<close>: the values it yields. \<open>POST_chat\<close> answers the request
  with the payload's \<open>session_id\<close> and \<open>user_message\<close>.
\<close>

definition get_streaming_response ::
  "(string \<Rightarrow> string \<Rightarrow> chat_reply) \<Rightarrow> string \<Rightarrow> string \<Rightarrow> string list" where
  "get_streaming_response POST_chat sid user_message' =
     (case POST_chat (if sid = [] then ''default'' else sid) user_message' of
        RequestRaised e \<Rightarrow> [''[ERROR] Network/client error: '' @ str_e e]
      | StatusError code text \<Rightarrow>
          [''[ERROR] Backend returned '' @ str_nat code @ '': '' @ text]
      | Body (chunks, None) \<Rightarrow> iter_text_loop [] chunks
      | Body (chunks, Some e) \<Rightarrow>
          iter_text_loop [] chunks @ [''[ERROR] Network/client error: '' @ str_e e])"

subsection \<open>Handlers\<close>

text \<open>
  \<open>init_sessions\<close>: the choices and the value of the dropdown, the \<open>choices_state\<close>,
  the chat and the status text; or the exception of \<open>create_session\<close>, which nothing
  catches.
\<close>

record session_outputs =
  dropdown_choices :: "string list"
  dropdown_value :: string
  choices_state :: "string list"
  chat_value :: "(string \<times> string) list"
  status_text :: string

definition init_sessions :: "sessions_reply \<Rightarrow> create_session \<Rightarrow> exn + session_outputs" where
  "init_sessions reply create_session =
     (let sessions = get_available_sessions reply
      in case (if sessions = [] then
                 (case create_session of
                    Inl e \<Rightarrow> Inl e
                  | Inr new_session_id \<Rightarrow> Inr [new_session_id])
               else Inr sessions) of
           Inl e \<Rightarrow> Inl e
         | Inr sessions \<Rightarrow>
             Inr \<lparr>dropdown_choices = sessions, dropdown_value = hd sessions,
                  choices_state = sessions, chat_value = [], status_text = []\<rparr>)"

text \<open>
  \<open>handle_message_send\<close> yields either \<open>gr.update()\<close>, which changes nothing, or the
  chat history to show. The loop writes each partial response into the last pair of the
  history (\<open>chat_history[-1][1] = full_response\<close>) and yields the history as it is then.
\<close>

datatype chat_update = No_update | Chat_history "(string \<times> string) list"

definition set_last_reply :: "(string \<times> string) list \<Rightarrow> string \<Rightarrow> (string \<times> string) list" where
  "set_last_reply chat_history full_response =
     chat_history[length chat_history - 1 := (fst (last chat_history), full_response)]"

fun send_loop :: "(string \<times> string) list \<Rightarrow> string list \<Rightarrow> chat_update list" where
  "send_loop chat_history [] = []"
| "send_loop chat_history (partial_response # rest) =
     (let chat_history' = set_last_reply chat_history partial_response
      in Chat_history chat_history' # send_loop chat_history' rest)"

definition handle_message_send ::
  "(string \<Rightarrow> string \<Rightarrow> chat_reply) \<Rightarrow> string option \<Rightarrow> string option \<Rightarrow>
   (string \<times> string) list option \<Rightarrow> chat_update list" where
  "handle_message_send POST_chat current_session_id user_msg chat_history =
     (let current_session_id' =
            strip (case current_session_id of
                     None \<Rightarrow> ''default''
                   | Some s \<Rightarrow> if s = [] then ''default'' else s);
          user_msg' = strip (case user_msg of None \<Rightarrow> [] | Some m \<Rightarrow> m)
      in if user_msg' = [] then [No_update]
         else
           (let chat_history' =
                  (case chat_history of None \<Rightarrow> [] | Some h \<Rightarrow> h) @ [(user_msg', [])]
            in send_loop chat_history'
                 (get_streaming_response POST_chat current_session_id' user_msg')))"

text \<open>
  \<open>handle_session_deletion\<close>. The \<open>DELETE\<close> call raises or gives a response with a
  status code and a text. With no session selected the handler leaves the chat and the
  dropdown as they are (\<open>None\<close> below) and returns the choices.
\<close>

datatype delete_reply = DeleteRaised exn | DeleteResponse nat string

record deletion_outputs =
  chat_cleared :: bool
  dropdown :: "(string list \<times> string) option"
  choices :: "string list"
  deletion_status :: string

definition handle_session_deletion ::
  "delete_reply \<Rightarrow> create_session \<Rightarrow> string option \<Rightarrow> string list option \<Rightarrow>
   exn + deletion_outputs" where
  "handle_session_deletion delete_reply create_session current_session_id current_choices =
     (let session_to_be_deleted =
            strip (case current_session_id of None \<Rightarrow> [] | Some s \<Rightarrow> s);
          choices0 = (case current_choices of None \<Rightarrow> [] | Some cs \<Rightarrow> cs)
      in if session_to_be_deleted = [] then
           Inr \<lparr>chat_cleared = False, dropdown = None, choices = choices0,
                deletion_status = ''Select a session first.''\<rparr>
         else
           (case delete_reply of
              DeleteRaised e \<Rightarrow> Inl e
            | DeleteResponse code text \<Rightarrow>
                (let choices1 = filter (\<lambda>c. c \<noteq> session_to_be_deleted) choices0
                 in if choices1 = [] then
                      (case create_session of
                         Inl e \<Rightarrow> Inl e
                       | Inr new_sid \<Rightarrow>
                           Inr \<lparr>chat_cleared = True, dropdown = Some ([new_sid], new_sid),
                                choices = [new_sid],
                                deletion_status = ''Deleted. Started a new chat.''\<rparr>)
                    else
                      Inr \<lparr>chat_cleared = True, dropdown = Some (choices1, hd choices1),
                           choices = choices1,
                           deletion_status =
                             (if code = 200 then ''Deleted.''
                              else ''Delete failed: '' @ text)\<rparr>)))"

section \<open>Properties of the loops\<close>

lemma strip_Nil_iff: "strip s = [] \<longleftrightarrow> (\<forall>c\<in>set s. isspace c)"
proof
  assume "strip s = []"
  then have all: "\<forall>c\<in>set (dropWhile isspace s). isspace c"
    by (simp add: strip_def)
  have "dropWhile isspace s = []"
  proof (rule ccontr)
    assume ne: "dropWhile isspace s \<noteq> []"
    then have "\<not> isspace (hd (dropWhile isspace s))" by (rule hd_dropWhile)
    moreover have "hd (dropWhile isspace s) \<in> set (dropWhile isspace s)"
      using ne by simp
    ultimately show False using all by blast
  qed
  then show "\<forall>c\<in>set s. isspace c" by simp
next
  assume "\<forall>c\<in>set s. isspace c"
  then show "strip s = []" by (auto simp: strip_def dest: set_dropWhileD)
qed

lemma get_history_loop_eq:
  "get_history_loop msgs ms = msgs @ map (\<lambda>m. \<lparr>role = role_of m, content = msg_content m\<rparr>) ms"
  by (induction ms arbitrary: msgs) simp_all




lemma iter_text_loop_eq:
  "iter_text_loop combined fs = map (\<lambda>k. combined @ concat (take k fs)) [1..<Suc (length fs)]"
proof (induction fs arbitrary: combined)
  case Nil
  show ?case by simp
next
  case (Cons f fs)
  have "[1..<Suc (length (f # fs))] = 1 # [Suc 1..<Suc (Suc (length fs))]"
    by (simp add: upt_conv_Cons del: upt_Suc)
  also have "[Suc 1..<Suc (Suc (length fs))] = map Suc [1..<Suc (length fs)]"
    by (rule map_Suc_upt [symmetric])
  finally have upt: "[1..<Suc (length (f # fs))] = 1 # map Suc [1..<Suc (length fs)]" .
  show ?case
    unfolding upt by (simp add: Cons.IH Let_def o_def del: upt_Suc)
qed

lemma set_last_reply_snoc: "set_last_reply (h @ [(u, r)]) p = h @ [(u, p)]"
  by (simp add: set_last_reply_def)

lemma send_loop_eq:
  "send_loop (h @ [(u, r)]) ps = map (\<lambda>p. Chat_history (h @ [(u, p)])) ps"
  by (induction ps arbitrary: r) (simp_all add: set_last_reply_snoc Let_def)



lemma get_history_messages:
  "messages (fst (get_history S st)) =
     map (\<lambda>m. \<lparr>role = role_of m, content = msg_content m\<rparr>)
       (aget_messages (if S = [] then ''default'' else S) (STORE st))"
  by (simp add: get_history_def FakeSQLChatMessageHistory_def aget_messages_def
      get_history_loop_eq Let_def split: option.splits)



section \<open>The chat exchange\<close>



text \<open>
  C2. When the stream of the history wrapper raises an exception \<open>e\<close> after the chunks
  \<open>chunks\<close>, the response of \<open>POST /chat\<close> does not raise: its body is the fragments
  of \<open>chunks\<close>, the same as when the stream ends there without a failure, followed by
  exactly one more fragment, the text \<open>[ERROR] Provider failed:\<close> with the kind and the
  message of \<open>e\<close> (after two line feeds), and then it ends. This holds for every history
  wrapper and every chain.
\<close>

theorem chat_stream_failure:
  assumes "strip (user_message body) \<noteq> []"
    and "RunnableWithMessageHistory build_chain
           (\<lambda>session_id. FakeSQLChatMessageHistory (Some session_id))
           [''system_prompt'' \<mapsto> SYSTEM_PROMPT, ''input'' \<mapsto> strip (user_message body)]
           (Some [''configurable'' \<mapsto> [''session_id'' \<mapsto> strip (ChatIn_session_id body)]])
           (STORE st) = ((chunks, Some e), store)"
  shows "chat RunnableWithMessageHistory build_chain body st =
           (Inr (gen_loop chunks @
                   [[CHR 0x0A, CHR 0x0A] @ ''[ERROR] Provider failed: '' @ type_name e @
                    '': '' @ str_e e],
                 None),
            st\<lparr>STORE := store\<rparr>) \<and>
         gen_loop chunks = fst (gen (chunks, None))"
  using assms by (simp add: chat_def Let_def gen_def error_fragment_def)

theorem chat_stream_failure_witness:
  "strip (user_message \<lparr>ChatIn_session_id = ''abc'', user_message = ''Hello''\<rparr>) \<noteq> [] \<and>
   FakeHistoryWrapper
     (\<lambda>inputs. ([''par'', '''', ''tial''],
                 Some \<lparr>type_name = ''RateLimitError'', str_e = ''quota''\<rparr>))
     (\<lambda>session_id. FakeSQLChatMessageHistory (Some session_id))
     [''system_prompt'' \<mapsto> SYSTEM_PROMPT, ''input'' \<mapsto> ''Hello'']
     (Some [''configurable'' \<mapsto> [''session_id'' \<mapsto> ''abc'']]) Map.empty =
     (([Str ''par'', Str '''', Str ''tial''],
       Some \<lparr>type_name = ''RateLimitError'', str_e = ''quota''\<rparr>),
      [''abc'' \<mapsto> [HumanMessage ''Hello'']]) \<and>
   chat FakeHistoryWrapper
     (\<lambda>inputs. ([''par'', '''', ''tial''],
                 Some \<lparr>type_name = ''RateLimitError'', str_e = ''quota''\<rparr>))
     \<lparr>ChatIn_session_id = ''abc'', user_message = ''Hello''\<rparr>
     \<lparr>STORE = Map.empty, chat_sessions = []\<rparr> =
     (Inr ([''par'', ''tial'',
            [CHR 0x0A, CHR 0x0A] @ ''[ERROR] Provider failed: RateLimitError: quota''], None),
      \<lparr>STORE = [''abc'' \<mapsto> [HumanMessage ''Hello'']], chat_sessions = []\<rparr>)"
proof -
  have s: "strip ''Hello'' = ''Hello''" "strip ''abc'' = ''abc''"
    by (simp_all add: strip_def isspace_def)
  have w: "FakeHistoryWrapper
     (\<lambda>inputs. ([''par'', '''', ''tial''],
                 Some \<lparr>type_name = ''RateLimitError'', str_e = ''quota''\<rparr>))
     (\<lambda>session_id. FakeSQLChatMessageHistory (Some session_id))
     [''system_prompt'' \<mapsto> SYSTEM_PROMPT, ''input'' \<mapsto> ''Hello'']
     (Some [''configurable'' \<mapsto> [''session_id'' \<mapsto> ''abc'']]) Map.empty =
     (([Str ''par'', Str '''', Str ''tial''],
       Some \<lparr>type_name = ''RateLimitError'', str_e = ''quota''\<rparr>),
      [''abc'' \<mapsto> [HumanMessage ''Hello'']])"
    by (simp add: FakeHistoryWrapper_def FakeSQLChatMessageHistory_def aadd_message_def Let_def)
  show ?thesis
    using chat_stream_failure [of "\<lparr>ChatIn_session_id = ''abc'', user_message = ''Hello''\<rparr>"
        FakeHistoryWrapper
        "\<lambda>inputs. ([''par'', '''', ''tial''],
                 Some \<lparr>type_name = ''RateLimitError'', str_e = ''quota''\<rparr>)"
        "\<lparr>STORE = Map.empty, chat_sessions = []\<rparr>"
        "[Str ''par'', Str '''', Str ''tial'']"
        "\<lparr>type_name = ''RateLimitError'', str_e = ''quota''\<rparr>"
        "[''abc'' \<mapsto> [HumanMessage ''Hello'']]"]
    by (simp add: s w)
qed

text \<open>
  C3. A \<open>POST /chat\<close> whose \<open>user_message\<close> has only whitespace (or nothing) is
  answered with the \<open>HTTPException\<close> of status 400, whatever the history wrapper and the
  chain are, so that neither is called, and the state, the histories of all sessions with
  it, is the one before the request.
\<close>

theorem chat_rejects_empty:
  assumes "\<forall>c\<in>set (user_message body). isspace c"
  shows "chat RunnableWithMessageHistory build_chain body st =
           (Inl \<lparr>status_code = 400, detail = ''user_message cannot be empty.''\<rparr>, st)"
  using assms by (simp add: chat_def strip_Nil_iff)

theorem chat_rejects_empty_witness:
  "list_all isspace [CHR '' '', CHR 0x09, CHR 0x0A] \<and>
   chat FakeHistoryWrapper FakeStreamChain
     \<lparr>ChatIn_session_id = ''abc'', user_message = [CHR '' '', CHR 0x09, CHR 0x0A]\<rparr>
     \<lparr>STORE = [''abc'' \<mapsto> [HumanMessage ''Hi'']], chat_sessions = [''abc'']\<rparr> =
     (Inl \<lparr>status_code = 400, detail = ''user_message cannot be empty.''\<rparr>,
      \<lparr>STORE = [''abc'' \<mapsto> [HumanMessage ''Hi'']], chat_sessions = [''abc'']\<rparr>)"
  using chat_rejects_empty [of "\<lparr>ChatIn_session_id = ''abc'', user_message = [CHR '' '', CHR 0x09, CHR 0x0A]\<rparr>"
      FakeHistoryWrapper FakeStreamChain
      "\<lparr>STORE = [''abc'' \<mapsto> [HumanMessage ''Hi'']], chat_sessions = [''abc'']\<rparr>"]
  by (simp add: isspace_def)



section \<open>Sessions and their history\<close>


text \<open>
  C5. \<open>DELETE /session/S\<close>, for every state and every \<open>S\<close>, created before or not:
  the answer is \<open>{status: "cleared", session_id: S}\<close>; a second call gives the same
  answer and leaves the state of the first call as it is; after the call the history of
  \<open>S\<close> is empty and \<open>S\<close> is not among the sessions that \<open>GET /sessions\<close> lists. No
  path of the function raises.
\<close>

theorem delete_idempotent:
  "fst (clear_session_history S st) = \<lparr>status = ''cleared'', cleared_session_id = S\<rparr> \<and>
   fst (clear_session_history S (snd (clear_session_history S st))) =
     \<lparr>status = ''cleared'', cleared_session_id = S\<rparr> \<and>
   snd (clear_session_history S (snd (clear_session_history S st))) =
     snd (clear_session_history S st) \<and>
   messages (fst (get_history S (snd (clear_session_history S st)))) = [] \<and>
   S \<notin> set (list_all_sessions (snd (clear_session_history S st)))"
  by (simp add: clear_session_history_def FakeSQLChatMessageHistory_def aclear_def Let_def
      get_history_messages aget_messages_def list_all_sessions_def split: option.splits)

text \<open>
  C7. For a session id \<open>S\<close> with no recorded message, whether the store has no entry for
  it or an empty one, and whether or not \<open>S\<close> is a row of \<open>chat_sessions\<close>,
  \<open>GET /session/S/history\<close> returns \<open>S\<close> with an empty list of messages. The function
  has no path that raises.
\<close>

theorem get_history_empty:
  assumes "STORE st (if S = [] then ''default'' else S) = None \<or>
           STORE st (if S = [] then ''default'' else S) = Some []"
  shows "fst (get_history S st) = \<lparr>session_id = S, messages = []\<rparr>"
  using assms
  by (auto simp: get_history_def FakeSQLChatMessageHistory_def aget_messages_def Let_def)

theorem get_history_empty_witness:
  "(STORE \<lparr>STORE = [''abc'' \<mapsto> [HumanMessage ''Hi'']], chat_sessions = [''abc'']\<rparr>
      (if ''never-created'' = [] then ''default'' else ''never-created'') = None \<or>
    STORE \<lparr>STORE = [''abc'' \<mapsto> [HumanMessage ''Hi'']], chat_sessions = [''abc'']\<rparr>
      (if ''never-created'' = [] then ''default'' else ''never-created'') = Some []) \<and>
   fst (get_history ''never-created''
          \<lparr>STORE = [''abc'' \<mapsto> [HumanMessage ''Hi'']], chat_sessions = [''abc'']\<rparr>) =
     \<lparr>session_id = ''never-created'', messages = []\<rparr>"
  using get_history_empty [of "\<lparr>STORE = [''abc'' \<mapsto> [HumanMessage ''Hi'']], chat_sessions = [''abc'']\<rparr>"
      "''never-created''"]
  by simp

text \<open>
  C10. \<open>GET /session/{id}/history\<close> returns one entry for every stored message, of
  whatever kind; a stored message that is not an AI, human or system message is returned
  with the role \<open>unknown\<close>, which is none of \<open>user\<close>, \<open>assistant\<close> and \<open>system\<close>.
\<close>

theorem get_history_unknown_role:
  assumes "STORE st (if S = [] then ''default'' else S) = Some ms"
    and "OtherMessage c \<in> set ms"
  shows "fst (get_history S st) =
           \<lparr>session_id = S,
            messages = map (\<lambda>m. \<lparr>role = role_of m, content = msg_content m\<rparr>) ms\<rparr> \<and>
         \<lparr>role = ''unknown'', content = c\<rparr> \<in> set (messages (fst (get_history S st))) \<and>
         ''unknown'' \<notin> {''user'', ''assistant'', ''system''}"
proof -
  have g: "fst (get_history S st) =
      \<lparr>session_id = S, messages = map (\<lambda>m. \<lparr>role = role_of m, content = msg_content m\<rparr>) ms\<rparr>"
    using assms(1)
    by (auto simp: get_history_def FakeSQLChatMessageHistory_def aget_messages_def Let_def
        get_history_loop_eq)
  have "\<lparr>role = role_of (OtherMessage c), content = msg_content (OtherMessage c)\<rparr>
      \<in> (\<lambda>m. \<lparr>role = role_of m, content = msg_content m\<rparr>) ` set ms"
    using assms(2) by (rule imageI)
  then show ?thesis by (simp add: g)
qed

theorem get_history_unknown_role_witness:
  "STORE \<lparr>STORE = [''abc'' \<mapsto> [HumanMessage ''Hi'', OtherMessage ''42'']], chat_sessions = [''abc'']\<rparr>
      (if ''abc'' = [] then ''default'' else ''abc'') =
     Some [HumanMessage ''Hi'', OtherMessage ''42''] \<and>
   OtherMessage ''42'' \<in> set [HumanMessage ''Hi'', OtherMessage ''42''] \<and>
   fst (get_history ''abc''
      \<lparr>STORE = [''abc'' \<mapsto> [HumanMessage ''Hi'', OtherMessage ''42'']], chat_sessions = [''abc'']\<rparr>) =
     \<lparr>session_id = ''abc'',
      messages = [\<lparr>role = ''user'', content = ''Hi''\<rparr>, \<lparr>role = ''unknown'', content = ''42''\<rparr>]\<rparr>"
  using get_history_unknown_role
    [of "\<lparr>STORE = [''abc'' \<mapsto> [HumanMessage ''Hi'', OtherMessage ''42'']], chat_sessions = [''abc'']\<rparr>"
      "''abc''" "[HumanMessage ''Hi'', OtherMessage ''42'']" "''42''"]
  by simp

section \<open>The client\<close>

text \<open>
  C8. When the reply to a non-empty message arrives as the fragments \<open>fs\<close>, the values
  that \<open>get_streaming_response\<close> yields are the concatenations of the first \<open>k\<close>
  fragments, for \<open>k\<close> from 1 to the number of fragments, in that order, and
  \<open>handle_message_send\<close> yields, for each of them, the chat history with that text as
  the assistant's side of the last pair: the cumulative text, not the newest fragment.
\<close>

theorem client_renders_cumulative:
  assumes "strip m \<noteq> []"
    and "POST_chat
           (if strip (case current_session_id of
                        None \<Rightarrow> ''default''
                      | Some s \<Rightarrow> if s = [] then ''default'' else s) = []
            then ''default''
            else strip (case current_session_id of
                          None \<Rightarrow> ''default''
                        | Some s \<Rightarrow> if s = [] then ''default'' else s))
           (strip m) = Body (fs, None)"
  shows "get_streaming_response POST_chat
           (strip (case current_session_id of
                     None \<Rightarrow> ''default''
                   | Some s \<Rightarrow> if s = [] then ''default'' else s))
           (strip m) =
           map (\<lambda>k. concat (take k fs)) [1..<Suc (length fs)] \<and>
         handle_message_send POST_chat current_session_id (Some m) chat_history =
           map (\<lambda>k. Chat_history
                       ((case chat_history of None \<Rightarrow> [] | Some h \<Rightarrow> h) @
                        [(strip m, concat (take k fs))]))
             [1..<Suc (length fs)]"
proof -
  let ?sid = "strip (case current_session_id of
                       None \<Rightarrow> ''default''
                     | Some s \<Rightarrow> if s = [] then ''default'' else s)"
  have g: "get_streaming_response POST_chat ?sid (strip m) =
      map (\<lambda>k. concat (take k fs)) [1..<Suc (length fs)]"
    using assms(2) by (simp add: get_streaming_response_def iter_text_loop_eq del: upt_Suc)
  have h: "handle_message_send POST_chat current_session_id (Some m) chat_history =
      send_loop ((case chat_history of None \<Rightarrow> [] | Some h \<Rightarrow> h) @ [(strip m, [])])
        (get_streaming_response POST_chat ?sid (strip m))"
    using assms(1) by (simp add: handle_message_send_def Let_def)
  show ?thesis
    unfolding h g by (simp add: send_loop_eq o_def del: upt_Suc)
qed

theorem client_renders_cumulative_witness:
  "strip ''hi'' \<noteq> [] \<and>
   get_streaming_response (\<lambda>sid u. Body ([''HEL'', ''LO: '', ''X''], None)) ''abc'' ''hi'' =
     [''HEL'', ''HELLO: '', ''HELLO: X''] \<and>
   handle_message_send (\<lambda>sid u. Body ([''HEL'', ''LO: '', ''X''], None))
       (Some ''abc'') (Some ''hi'') (Some [(''q'', ''a'')]) =
     [Chat_history [(''q'', ''a''), (''hi'', ''HEL'')],
      Chat_history [(''q'', ''a''), (''hi'', ''HELLO: '')],
      Chat_history [(''q'', ''a''), (''hi'', ''HELLO: X'')]]"
proof -
  have s: "strip ''hi'' = ''hi''" "strip ''abc'' = ''abc''"
    by (simp_all add: strip_def isspace_def)
  have u: "[1..<Suc (length [''HEL'', ''LO: '', ''X''])] = [1, 2, 3]"
    by (simp add: upt_rec)
  show ?thesis
    using client_renders_cumulative [of "''hi''" "\<lambda>sid u. Body ([''HEL'', ''LO: '', ''X''], None)"
        "Some ''abc''" "[''HEL'', ''LO: '', ''X'']" "Some [(''q'', ''a'')]"]
    unfolding u by (simp add: s)
qed

text \<open>
  C9 as it is stated fails when \<open>GET /sessions\<close> answers with an empty list and
  \<open>POST /session\<close> then fails: \<open>init_sessions\<close> raises, and the interface gets no session.
\<close>

theorem init_sessions_create_fails:
  "init_sessions (SessionsResponse 200 (Some []))
     (Inl \<lparr>type_name = ''HTTPStatusError'', str_e = ''Server error''\<rparr>) =
   Inl \<lparr>type_name = ''HTTPStatusError'', str_e = ''Server error''\<rparr>"
  by (simp add: init_sessions_def get_available_sessions_def)

text \<open>
  C9, amended. When the list call fails, \<open>init_sessions\<close> offers the single session
  \<open>default\<close>, without creating a session. When the \<open>POST /session\<close> call of a handler
  succeeds, the handler ends with at least one selectable session: \<open>init_sessions\<close>
  offers a list that is not empty, with its value among the choices, and for an empty
  list of sessions it is the new session alone; \<open>handle_session_deletion\<close>, with a
  session selected and a response to its \<open>DELETE\<close> call, returns choices that are not
  empty and selects the first of them, and when the deleted session was the last one, the
  choices are the new session alone.
\<close>

theorem sessions_never_empty:
  assumes "create_session = Inr new_sid"
    and "strip sel \<noteq> []"
  shows "init_sessions SessionsRaised any_create_session =
           Inr \<lparr>dropdown_choices = [''default''], dropdown_value = ''default'',
                choices_state = [''default''], chat_value = [], status_text = []\<rparr> \<and>
         init_sessions (SessionsResponse 200 (Some [])) create_session =
           Inr \<lparr>dropdown_choices = [new_sid], dropdown_value = new_sid,
                choices_state = [new_sid], chat_value = [], status_text = []\<rparr> \<and>
         (\<exists>out. init_sessions reply create_session = Inr out \<and>
                dropdown_choices out \<noteq> [] \<and> choices_state out = dropdown_choices out \<and>
                dropdown_value out \<in> set (dropdown_choices out)) \<and>
         handle_session_deletion (DeleteResponse code text) create_session
             (Some sel) (Some [strip sel]) =
           Inr \<lparr>chat_cleared = True, dropdown = Some ([new_sid], new_sid), choices = [new_sid],
                deletion_status = ''Deleted. Started a new chat.''\<rparr> \<and>
         (\<exists>out. handle_session_deletion (DeleteResponse code text) create_session
                  (Some sel) current_choices = Inr out \<and>
                choices out \<noteq> [] \<and>
                dropdown out = Some (choices out, hd (choices out)))"
proof -
  have a: "init_sessions SessionsRaised any_create_session =
           Inr \<lparr>dropdown_choices = [''default''], dropdown_value = ''default'',
                choices_state = [''default''], chat_value = [], status_text = []\<rparr>"
    by (simp add: init_sessions_def get_available_sessions_def Let_def)
  have b: "init_sessions (SessionsResponse 200 (Some [])) create_session =
           Inr \<lparr>dropdown_choices = [new_sid], dropdown_value = new_sid,
                choices_state = [new_sid], chat_value = [], status_text = []\<rparr>"
    using assms(1) by (simp add: init_sessions_def get_available_sessions_def Let_def)
  have c: "\<exists>out. init_sessions reply create_session = Inr out \<and>
                dropdown_choices out \<noteq> [] \<and> choices_state out = dropdown_choices out \<and>
                dropdown_value out \<in> set (dropdown_choices out)"
    using assms(1) by (simp add: init_sessions_def Let_def)
  have d: "handle_session_deletion (DeleteResponse code text) create_session
             (Some sel) (Some [strip sel]) =
           Inr \<lparr>chat_cleared = True, dropdown = Some ([new_sid], new_sid), choices = [new_sid],
                deletion_status = ''Deleted. Started a new chat.''\<rparr>"
    using assms by (simp add: handle_session_deletion_def Let_def)
  have e: "\<exists>out. handle_session_deletion (DeleteResponse code text) create_session
                  (Some sel) current_choices = Inr out \<and>
                choices out \<noteq> [] \<and>
                dropdown out = Some (choices out, hd (choices out))"
  proof (cases "filter (\<lambda>c. c \<noteq> strip sel)
                 (case current_choices of None \<Rightarrow> [] | Some cs \<Rightarrow> cs) = []")
    case True
    then show ?thesis
      using assms by (simp add: handle_session_deletion_def Let_def)
  next
    case False
    then show ?thesis
      using assms by (simp add: handle_session_deletion_def Let_def)
  qed
  show ?thesis using a b c d e by blast
qed

theorem sessions_never_empty_witness:
  "strip ''abc'' \<noteq> [] \<and>
   init_sessions SessionsRaised (Inl \<lparr>type_name = ''ConnectError'', str_e = ''refused''\<rparr>) =
     Inr \<lparr>dropdown_choices = [''default''], dropdown_value = ''default'',
          choices_state = [''default''], chat_value = [], status_text = []\<rparr> \<and>
   init_sessions (SessionsResponse 200 (Some [])) (Inr ''new'') =
     Inr \<lparr>dropdown_choices = [''new''], dropdown_value = ''new'',
          choices_state = [''new''], chat_value = [], status_text = []\<rparr> \<and>
   handle_session_deletion (DeleteResponse 200 ''ok'') (Inr ''new'') (Some ''abc'') (Some [''abc'']) =
     Inr \<lparr>chat_cleared = True, dropdown = Some ([''new''], ''new''), choices = [''new''],
          deletion_status = ''Deleted. Started a new chat.''\<rparr>"
proof -
  have s: "strip ''abc'' = ''abc''" by (simp add: strip_def isspace_def)
  show ?thesis
    using sessions_never_empty [of "Inr ''new''" "''new''" "''abc''"
        "Inl \<lparr>type_name = ''ConnectError'', str_e = ''refused''\<rparr>"
        "SessionsResponse 200 (Some [])" 200 "''ok''" "Some [''abc'']"]
    by (simp add: s)
qed

end
